theory Spec2Isabelle
  imports Main
begin

section \<open>The friend-relationship routes of server.js\<close>

text \<open>
  The development embeds the friend-request and friendship routes of \<^verbatim>\<open>src/server.js\<close>
  (lines 206 to 530) together with the order in which Express registers them. Documents
  are records, the two collections are the state, every handler is a function from the
  state to a response and a new state.

  \<^item> An ObjectId is a natural number; identifiers are taken to be well formed, so the
    cast errors of malformed identifiers are outside the model.
  \<^item> Where a handler compares an identifier as text (the self guard of the first POST
    handler, the filters of the friend removal), the request carries the text, an
    \<open>idtext\<close>; where a handler only casts an identifier (\<^verbatim>\<open>findById\<close>, \<^verbatim>\<open>includes\<close>,
    a query filter), the request carries the ObjectId the text casts to.
  \<^item> A field of a request body that is missing (or otherwise falsy) is \<open>None\<close>.
  \<^item> Every awaited store call of a handler may reject. The parameter \<open>fails\<close> says which
    ones do: \<open>fails k\<close> holds when the store call numbered \<open>k\<close> of this invocation
    rejects. The numbering is given with each handler. A rejection is caught by the
    handler's \<^verbatim>\<open>try/catch\<close> and answered with status 500. \<open>no_fault\<close> is the run in
    which the database never rejects. Mongoose's own version check, which rejects the
    second of two saves that change the same array of the same document, is part of the
    friend removal's model (\<open>version_conflict\<close>).
  \<^item> The auth, blink and user-data routes are not part of the relationship state machine
    and are left out.
\<close>

subsection \<open>Documents and the store\<close>

type_synonym oid = nat

text \<open>An identifier as a request writes it: a text of 24 hexadecimal digits. Mongoose casts
  it to an ObjectId whatever the case of its letters, so several texts denote one ObjectId,
  and \<^verbatim>\<open>toString()\<close> of an ObjectId is the text in lower case. A text is given by the
  ObjectId it casts to and by which of its letters are in upper case (a bit pattern, 0 for
  none). Two texts are equal as strings exactly when both components agree.\<close>

datatype idtext = IdText (cast_id: oid) (upper_case: nat)

definition toString :: "oid \<Rightarrow> idtext" where
  "toString i = IdText i 0"

text \<open>\<^verbatim>\<open>userSchema\<close>, server.js lines 62 to 70.\<close>

record user =
  name :: string
  email :: string
  password :: string
  profileImage :: "string option"
  friends :: "oid list"
  incomingRequests :: "oid list"
  outgoingRequests :: "oid list"

text \<open>\<^verbatim>\<open>friendRequestSchema\<close>, lines 75 to 82; \<open>status\<close> is a string restricted by an
  enum validator that runs on save.\<close>

record friendRequest =
  fromUser :: oid
  toUser :: oid
  status :: string

definition status_enum :: "string list" where
  "status_enum = [''pending'', ''accepted'', ''rejected'']"

text \<open>The store: the \<^verbatim>\<open>User\<close> collection keyed by identifier, and the
  \<^verbatim>\<open>FriendRequest\<close> collection in insertion order.\<close>

record db =
  users :: "oid \<rightharpoonup> user"
  friendRequests :: "(oid \<times> friendRequest) list"

type_synonym faults = "nat \<Rightarrow> bool"

definition no_fault :: faults where
  "no_fault = (\<lambda>k. False)"

subsection \<open>Responses\<close>

text \<open>A referenced user after \<^verbatim>\<open>populate\<close>: the identifier and the selected fields.\<close>

datatype populated =
  Populated (p_id: oid) (p_name: string) (p_email: string) (p_profileImage: "string option")

record userJson =
  j_name :: string
  j_email :: string
  j_profileImage :: "string option"
  j_friends :: "populated list"
  j_incomingRequests :: "oid list"
  j_outgoingRequests :: "oid list"

datatype json =
    Message string
  | Status string
  | Sent string oid
  | UserList "populated list"
  | RequestList "(oid \<times> populated option \<times> oid \<times> string) list"
  | Resolved string string "userJson option"

datatype response = Response (code: nat) (payload: json)

subsection \<open>Store operations\<close>

text \<open>\<^verbatim>\<open>$addToSet\<close>: append unless already present.\<close>

definition addToSet :: "oid list \<Rightarrow> oid \<Rightarrow> oid list" where
  "addToSet xs x = (if x \<in> set xs then xs else xs @ [x])"

text \<open>A write of some fields of one stored user document (\<^verbatim>\<open>findByIdAndUpdate\<close>, or
  \<^verbatim>\<open>save\<close> of the modified paths). An identifier without a document is left alone.\<close>

definition update_user :: "db \<Rightarrow> oid \<Rightarrow> (user \<Rightarrow> user) \<Rightarrow> db" where
  "update_user d uid f =
     (case users d uid of
        None \<Rightarrow> d
      | Some u \<Rightarrow> d\<lparr>users := (users d)(uid \<mapsto> f u)\<rparr>)"

text \<open>\<^verbatim>\<open>request.save()\<close> after \<^verbatim>\<open>request.status = status\<close>.\<close>

definition set_status :: "oid \<Rightarrow> string \<Rightarrow> (oid \<times> friendRequest) list \<Rightarrow> (oid \<times> friendRequest) list" where
  "set_status rid st rs = map (\<lambda>(i, r). if i = rid then (i, r\<lparr>status := st\<rparr>) else (i, r)) rs"

text \<open>\<^verbatim>\<open>FriendRequest.findByIdAndDelete\<close>.\<close>

definition delete_request :: "oid \<Rightarrow> (oid \<times> friendRequest) list \<Rightarrow> (oid \<times> friendRequest) list" where
  "delete_request rid rs = filter (\<lambda>(i, r). i \<noteq> rid) rs"

text \<open>\<^verbatim>\<open>FriendRequest.findOne({ fromUser, toUser, status: 'pending' })\<close>.\<close>

definition find_pending :: "oid \<Rightarrow> oid \<Rightarrow> (oid \<times> friendRequest) list \<Rightarrow> (oid \<times> friendRequest) option" where
  "find_pending f t rs =
     find (\<lambda>(i, r). fromUser r = f \<and> toUser r = t \<and> status r = ''pending'') rs"

text \<open>The identifier of a new document: one that no stored request carries.\<close>

definition fresh_id :: "(oid \<times> friendRequest) list \<Rightarrow> oid" where
  "fresh_id rs = Suc (fold max (map fst rs) 0)"

text \<open>\<^verbatim>\<open>populate\<close> of an array of references keeps the referenced documents that exist;
  of a single reference it yields the document or null.\<close>

definition populate_one :: "db \<Rightarrow> bool \<Rightarrow> oid \<Rightarrow> populated option" where
  "populate_one d with_image i =
     (case users d i of
        None \<Rightarrow> None
      | Some u \<Rightarrow> Some (Populated i (name u) (email u) (if with_image then profileImage u else None)))"

definition populate_many :: "db \<Rightarrow> oid list \<Rightarrow> populated list" where
  "populate_many d ids = List.map_filter (populate_one d True) ids"

definition lookup_body :: "db \<Rightarrow> idtext option \<Rightarrow> user option" where
  "lookup_body d x = (case x of None \<Rightarrow> None | Some i \<Rightarrow> users d (cast_id i))"

subsection \<open>The handlers, in the order of registration\<close>

text \<open>\<^verbatim>\<open>GET /api/friend-requests/check/:fromUserId/:toUserId\<close>, lines 206 to 238.
  Store calls: 0 and 1 are the two \<^verbatim>\<open>findById\<close> of the \<^verbatim>\<open>Promise.all\<close>.\<close>

definition get_check :: "faults \<Rightarrow> db \<Rightarrow> oid \<Rightarrow> oid \<Rightarrow> response \<times> db" where
  "get_check fails d fromUserId toUserId =
     (if fails 0 \<or> fails 1 then (Response 500 (Message ''Error checking friend request status''), d)
      else case users d fromUserId of
        None \<Rightarrow> (Response 404 (Message ''User not found''), d)
      | Some sender \<Rightarrow>
         (case users d toUserId of
            None \<Rightarrow> (Response 404 (Message ''User not found''), d)
          | Some receiver \<Rightarrow>
             if toUserId \<in> set (friends sender) then (Response 200 (Status ''friends''), d)
             else if toUserId \<in> set (outgoingRequests sender) \<or> fromUserId \<in> set (incomingRequests receiver)
               then (Response 200 (Status ''pending''), d)
             else (Response 200 (Status ''none''), d)))"

text \<open>\<^verbatim>\<open>POST /api/friend-request\<close>, first registration, lines 241 to 277.
  Store calls: 0 \<^verbatim>\<open>User.findById(fromUser)\<close>, 1 \<^verbatim>\<open>FriendRequest.findOne\<close>,
  2 \<^verbatim>\<open>newRequest.save()\<close>. The self guard \<^verbatim>\<open>fromUser === toUser\<close> compares the two
  body texts; everything after it casts them. When the sender does not exist,
  \<^verbatim>\<open>sender.friends\<close> throws a TypeError, which the handler's catch answers with 500. The
  receiver is never looked up.\<close>

definition post_friend_request ::
  "faults \<Rightarrow> db \<Rightarrow> idtext option \<Rightarrow> idtext option \<Rightarrow> response \<times> db" where
  "post_friend_request fails d fromU toU =
     (case fromU of
        None \<Rightarrow> (Response 400 (Message ''Both fromUser and toUser are required''), d)
      | Some f \<Rightarrow>
         (case toU of
            None \<Rightarrow> (Response 400 (Message ''Both fromUser and toUser are required''), d)
          | Some t \<Rightarrow>
             if f = t then (Response 400 (Message ''Cannot send request to yourself''), d)
             else if fails 0 then (Response 500 (Message ''Error sending friend request''), d)
             else
               (case users d (cast_id f) of
                  None \<Rightarrow> (Response 500 (Message ''Error sending friend request''), d)
                | Some sender \<Rightarrow>
                   if cast_id t \<in> set (friends sender)
                     then (Response 400 (Message ''Already friends''), d)
                   else if fails 1 then (Response 500 (Message ''Error sending friend request''), d)
                   else
                     (case find_pending (cast_id f) (cast_id t) (friendRequests d) of
                        Some existingRequest \<Rightarrow>
                          (Response 400 (Message ''Friend request already sent''), d)
                      | None \<Rightarrow>
                         if fails 2 then (Response 500 (Message ''Error sending friend request''), d)
                         else (Response 201
                                 (Sent ''Friend request sent successfully'' (fresh_id (friendRequests d))),
                               d\<lparr>friendRequests := friendRequests d @
                                    [(fresh_id (friendRequests d),
                                      \<lparr>fromUser = cast_id f, toUser = cast_id t,
                                       status = ''pending''\<rparr>)]\<rparr>)))))"

text \<open>\<^verbatim>\<open>DELETE /api/friend-request/:requestId\<close>, lines 280 to 295.
  Store calls: 0 \<^verbatim>\<open>findById\<close>, 1 \<^verbatim>\<open>findByIdAndDelete\<close>.\<close>

definition delete_friend_request :: "faults \<Rightarrow> db \<Rightarrow> oid \<Rightarrow> response \<times> db" where
  "delete_friend_request fails d requestId =
     (if fails 0 then (Response 500 (Message ''Error cancelling friend request''), d)
      else case map_of (friendRequests d) requestId of
        None \<Rightarrow> (Response 404 (Message ''Friend request not found''), d)
      | Some request \<Rightarrow>
         if status request \<noteq> ''pending''
           then (Response 400 (Message ''Only pending requests can be cancelled''), d)
         else if fails 1 then (Response 500 (Message ''Error cancelling friend request''), d)
         else (Response 200 (Message ''Friend request cancelled''),
               d\<lparr>friendRequests := delete_request requestId (friendRequests d)\<rparr>))"

text \<open>\<^verbatim>\<open>GET /api/friend-requests/:userId\<close>, first registration, lines 298 to 310.
  Store call 0 is the query with its \<^verbatim>\<open>populate('fromUser', 'name email')\<close>.\<close>

definition get_friend_requests :: "faults \<Rightarrow> db \<Rightarrow> oid \<Rightarrow> response \<times> db" where
  "get_friend_requests fails d userId =
     (if fails 0 then (Response 500 (Message ''Error fetching friend requests''), d)
      else (Response 200 (RequestList
              (map (\<lambda>(i, r). (i, populate_one d False (fromUser r), toUser r, status r))
                 (filter (\<lambda>(i, r). toUser r = userId \<and> status r = ''pending'') (friendRequests d)))), d))"

text \<open>\<^verbatim>\<open>PUT /api/friend-request/:requestId\<close>, first registration, lines 313 to 333.
  Store calls: 0 \<^verbatim>\<open>findById\<close>, 1 \<^verbatim>\<open>request.save()\<close>, 2 and 3 the two
  \<^verbatim>\<open>findByIdAndUpdate\<close> with \<^verbatim>\<open>$addToSet\<close>, awaited one after the other. The save also
  rejects when the new status is not in the schema's enum. The handler does not look at the
  stored status of the request.\<close>

definition put_friend_request :: "faults \<Rightarrow> db \<Rightarrow> oid \<Rightarrow> string \<Rightarrow> response \<times> db" where
  "put_friend_request fails d requestId st =
     (if fails 0 then (Response 500 (Message ''Error updating friend request''), d)
      else case map_of (friendRequests d) requestId of
        None \<Rightarrow> (Response 404 (Message ''Friend request not found''), d)
      | Some request \<Rightarrow>
         if st \<in> set status_enum then
           if fails 1 then (Response 500 (Message ''Error updating friend request''), d)
           else if st = ''accepted'' then
             if fails 2
               then (Response 500 (Message ''Error updating friend request''),
                     d\<lparr>friendRequests := set_status requestId st (friendRequests d)\<rparr>)
             else if fails 3
               then (Response 500 (Message ''Error updating friend request''),
                     update_user (d\<lparr>friendRequests := set_status requestId st (friendRequests d)\<rparr>)
                       (fromUser request) (\<lambda>u. u\<lparr>friends := addToSet (friends u) (toUser request)\<rparr>))
             else (Response 200 (Message (''Friend request '' @ st)),
                   update_user
                     (update_user (d\<lparr>friendRequests := set_status requestId st (friendRequests d)\<rparr>)
                        (fromUser request) (\<lambda>u. u\<lparr>friends := addToSet (friends u) (toUser request)\<rparr>))
                     (toUser request) (\<lambda>u. u\<lparr>friends := addToSet (friends u) (fromUser request)\<rparr>))
           else (Response 200 (Message (''Friend request '' @ st)),
                 d\<lparr>friendRequests := set_status requestId st (friendRequests d)\<rparr>)
         else (Response 500 (Message ''Error updating friend request''), d))"

text \<open>\<^verbatim>\<open>POST /api/friend-request\<close>, second registration, lines 336 to 371.
  Store calls: 0 and 1 the two \<^verbatim>\<open>findById\<close>, 2 \<^verbatim>\<open>sender.save()\<close>,
  3 \<^verbatim>\<open>receiver.save()\<close>; both saves are started before either is awaited, so one lands
  even when the other rejects. A \<^verbatim>\<open>push\<close> is saved as an append to the stored array.\<close>

definition post_friend_request_second ::
  "faults \<Rightarrow> db \<Rightarrow> idtext option \<Rightarrow> idtext option \<Rightarrow> response \<times> db" where
  "post_friend_request_second fails d fromU toU =
     (if fails 0 \<or> fails 1 then (Response 500 (Message ''Error sending friend request''), d)
      else case lookup_body d fromU of
        None \<Rightarrow> (Response 404 (Message ''User not found''), d)
      | Some sender \<Rightarrow>
         (case lookup_body d toU of
            None \<Rightarrow> (Response 404 (Message ''User not found''), d)
          | Some receiver \<Rightarrow>
             (case fromU of
                None \<Rightarrow> (Response 404 (Message ''User not found''), d)
              | Some f \<Rightarrow>
                 (case toU of
                    None \<Rightarrow> (Response 404 (Message ''User not found''), d)
                  | Some t \<Rightarrow>
                     if cast_id t \<in> set (friends sender)
                       then (Response 400 (Message ''Already friends''), d)
                     else if cast_id t \<in> set (outgoingRequests sender)
                             \<or> cast_id f \<in> set (incomingRequests receiver)
                       then (Response 400 (Message ''Friend request already sent''), d)
                     else
                       (if fails 2 \<or> fails 3
                          then Response 500 (Message ''Error sending friend request'')
                          else Response 201 (Message ''Friend request sent successfully''),
                        (let d1 = (if fails 2 then d else
                                     update_user d (cast_id f)
                                       (\<lambda>u. u\<lparr>outgoingRequests := outgoingRequests u @ [cast_id t]\<rparr>))
                         in if fails 3 then d1 else
                              update_user d1 (cast_id t)
                                (\<lambda>u. u\<lparr>incomingRequests := incomingRequests u @ [cast_id f]\<rparr>)))))))"

text \<open>\<^verbatim>\<open>GET /api/friend-requests/:userId\<close>, second registration, lines 374 to 388.\<close>

definition get_friend_requests_second :: "faults \<Rightarrow> db \<Rightarrow> oid \<Rightarrow> response \<times> db" where
  "get_friend_requests_second fails d userId =
     (if fails 0 then (Response 500 (Message ''Error fetching friend requests''), d)
      else case users d userId of
        None \<Rightarrow> (Response 404 (Message ''User not found''), d)
      | Some u \<Rightarrow> (Response 200 (UserList (populate_many d (incomingRequests u))), d))"

text \<open>\<^verbatim>\<open>PUT /api/friend-request/:requestId\<close>, second registration, lines 391 to 466.
  Store calls: 0 and 1 the two \<^verbatim>\<open>findById\<close>, 2 \<^verbatim>\<open>sender.save()\<close>,
  3 \<^verbatim>\<open>receiver.save()\<close> (started together), 4 the final \<^verbatim>\<open>findById\<close> with
  \<^verbatim>\<open>populate\<close>.\<close>

definition view_user :: "db \<Rightarrow> oid \<Rightarrow> userJson option" where
  "view_user d i =
     (case users d i of
        None \<Rightarrow> None
      | Some u \<Rightarrow> Some \<lparr>j_name = name u, j_email = email u, j_profileImage = profileImage u,
                        j_friends = populate_many d (friends u),
                        j_incomingRequests = incomingRequests u,
                        j_outgoingRequests = outgoingRequests u\<rparr>)"

text \<open>The two saves of the handler. The request arrays are assigned, so each save writes
  the filtered array of its own copy; a friend is added with \<^verbatim>\<open>push\<close> when the copy
  does not list it, and a push is saved as an append to the stored array.\<close>

definition resolve_saves :: "faults \<Rightarrow> db \<Rightarrow> oid \<Rightarrow> oid \<Rightarrow> user \<Rightarrow> user \<Rightarrow> string \<Rightarrow> db" where
  "resolve_saves fails d f t sender receiver st =
     (let out' = filter (\<lambda>i. i \<noteq> t) (outgoingRequests sender);
          in' = filter (\<lambda>i. i \<noteq> f) (incomingRequests receiver);
          d1 = (if fails 2 then d else
                  update_user d f
                    (\<lambda>u. u\<lparr>outgoingRequests := out',
                          friends := (if st = ''accepted'' \<and> t \<notin> set (friends sender)
                                      then friends u @ [t] else friends u)\<rparr>))
      in if fails 3 then d1 else
           update_user d1 t
             (\<lambda>u. u\<lparr>incomingRequests := in',
                   friends := (if st = ''accepted'' \<and> f \<notin> set (friends receiver)
                               then friends u @ [f] else friends u)\<rparr>))"

definition put_friend_request_second ::
  "faults \<Rightarrow> db \<Rightarrow> oid option \<Rightarrow> oid option \<Rightarrow> string \<Rightarrow> response \<times> db" where
  "put_friend_request_second fails d fromU toU st =
     (case fromU of
        None \<Rightarrow> (Response 400 (Message ''Missing user IDs''), d)
      | Some f \<Rightarrow>
         (case toU of
            None \<Rightarrow> (Response 400 (Message ''Missing user IDs''), d)
          | Some t \<Rightarrow>
             if fails 0 \<or> fails 1 then (Response 500 (Message ''Error handling friend request''), d)
             else
               (case users d f of
                  None \<Rightarrow> (Response 404 (Message ''User not found''), d)
                | Some sender \<Rightarrow>
                   (case users d t of
                      None \<Rightarrow> (Response 404 (Message ''User not found''), d)
                    | Some receiver \<Rightarrow>
                       if f \<in> set (incomingRequests receiver) \<and> t \<in> set (outgoingRequests sender) then
                         (if fails 2 \<or> fails 3 \<or> fails 4
                            then Response 500 (Message ''Error handling friend request'')
                            else Response 200
                                   (Resolved (if st = ''accepted'' then ''Friend request accepted''
                                              else ''Friend request rejected'') st
                                      (view_user (resolve_saves fails d f t sender receiver st) t)),
                          resolve_saves fails d f t sender receiver st)
                       else (Response 404 (Message ''Friend request not found''), d)))))"

text \<open>\<^verbatim>\<open>GET /api/friends/:userId\<close>, lines 469 to 483.\<close>

definition get_friends :: "faults \<Rightarrow> db \<Rightarrow> oid \<Rightarrow> response \<times> db" where
  "get_friends fails d userId =
     (if fails 0 then (Response 500 (Message ''Error fetching friends''), d)
      else case users d userId of
        None \<Rightarrow> (Response 404 (Message ''User not found''), d)
      | Some u \<Rightarrow> (Response 200 (UserList (populate_many d (friends u))), d))"

text \<open>\<^verbatim>\<open>DELETE /api/friends/:userId/:friendId\<close>, lines 506 to 530.
  Store calls: 0 and 1 the two \<^verbatim>\<open>findById\<close>, 2 \<^verbatim>\<open>user.save()\<close>, 3 \<^verbatim>\<open>friend.save()\<close>,
  started together. The two filters compare \<^verbatim>\<open>id.toString()\<close> with the text of the URL
  parameter, so an entry is removed only when the parameter is its lower-case text.

  An assignment that leaves the array as it was marks nothing as modified, and the save
  of an unmodified document writes nothing. When both parameters cast to the same user and
  both assignments change its friends array, the two saves write the same array of the
  same document under the same version: the first lands, and Mongoose rejects the second
  with a VersionError, which the catch answers with 500.\<close>

definition version_conflict :: "db \<Rightarrow> idtext \<Rightarrow> idtext \<Rightarrow> bool" where
  "version_conflict d userId friendId =
     (cast_id userId = cast_id friendId \<and>
      (case users d (cast_id userId) of
         None \<Rightarrow> False
       | Some u \<Rightarrow>
           filter (\<lambda>i. toString i \<noteq> friendId) (friends u) \<noteq> friends u
           \<and> filter (\<lambda>i. toString i \<noteq> userId) (friends u) \<noteq> friends u))"

definition delete_friends :: "faults \<Rightarrow> db \<Rightarrow> idtext \<Rightarrow> idtext \<Rightarrow> response \<times> db" where
  "delete_friends fails d userId friendId =
     (if fails 0 \<or> fails 1 then (Response 500 (Message ''Error removing friend''), d)
      else case users d (cast_id userId) of
        None \<Rightarrow> (Response 404 (Message ''User not found''), d)
      | Some usr \<Rightarrow>
         (case users d (cast_id friendId) of
            None \<Rightarrow> (Response 404 (Message ''User not found''), d)
          | Some friend \<Rightarrow>
             (if fails 2 \<or> fails 3 \<or> version_conflict d userId friendId
                then Response 500 (Message ''Error removing friend'')
                else Response 200 (Message ''Friend removed successfully''),
              (let d1 = (if fails 2 then d else
                           update_user d (cast_id userId)
                             (\<lambda>u. u\<lparr>friends := filter (\<lambda>i. toString i \<noteq> friendId) (friends usr)\<rparr>));
                   d2 = update_user d1 (cast_id friendId)
                          (\<lambda>u. u\<lparr>friends := filter (\<lambda>i. toString i \<noteq> userId) (friends friend)\<rparr>)
               in if fails 3 then d1
                  else if version_conflict d userId friendId then (if fails 2 then d2 else d1)
                  else d2))))"

subsection \<open>Routing\<close>

text \<open>A request to one of the routes above, with its path parameters and the body fields
  the handlers read.\<close>

datatype request =
    GET_check oid oid
  | POST_friend_request "idtext option" "idtext option"
  | DELETE_friend_request oid
  | GET_friend_requests oid
  | PUT_friend_request oid "oid option" "oid option" string
  | GET_friends oid
  | DELETE_friends idtext idtext

type_synonym handler = "faults \<Rightarrow> db \<Rightarrow> response \<times> db"

text \<open>A layer of the Express stack: the handler bound to the request when method and path
  match, nothing otherwise.\<close>

type_synonym layer = "request \<Rightarrow> handler option"

definition layer_get_check :: layer where
  "layer_get_check rq = (case rq of GET_check a b \<Rightarrow> Some (\<lambda>fails d. get_check fails d a b) | _ \<Rightarrow> None)"

definition layer_post_first :: layer where
  "layer_post_first rq =
     (case rq of POST_friend_request f t \<Rightarrow> Some (\<lambda>fails d. post_friend_request fails d f t) | _ \<Rightarrow> None)"

definition layer_delete_request :: layer where
  "layer_delete_request rq =
     (case rq of DELETE_friend_request i \<Rightarrow> Some (\<lambda>fails d. delete_friend_request fails d i) | _ \<Rightarrow> None)"

definition layer_get_requests_first :: layer where
  "layer_get_requests_first rq =
     (case rq of GET_friend_requests i \<Rightarrow> Some (\<lambda>fails d. get_friend_requests fails d i) | _ \<Rightarrow> None)"

definition layer_put_first :: layer where
  "layer_put_first rq =
     (case rq of PUT_friend_request i f t st \<Rightarrow> Some (\<lambda>fails d. put_friend_request fails d i st) | _ \<Rightarrow> None)"

definition layer_post_second :: layer where
  "layer_post_second rq =
     (case rq of POST_friend_request f t \<Rightarrow> Some (\<lambda>fails d. post_friend_request_second fails d f t)
      | _ \<Rightarrow> None)"

definition layer_get_requests_second :: layer where
  "layer_get_requests_second rq =
     (case rq of GET_friend_requests i \<Rightarrow> Some (\<lambda>fails d. get_friend_requests_second fails d i)
      | _ \<Rightarrow> None)"

definition layer_put_second :: layer where
  "layer_put_second rq =
     (case rq of PUT_friend_request i f t st \<Rightarrow> Some (\<lambda>fails d. put_friend_request_second fails d f t st)
      | _ \<Rightarrow> None)"

definition layer_get_friends :: layer where
  "layer_get_friends rq = (case rq of GET_friends i \<Rightarrow> Some (\<lambda>fails d. get_friends fails d i) | _ \<Rightarrow> None)"

definition layer_delete_friends :: layer where
  "layer_delete_friends rq =
     (case rq of DELETE_friends a b \<Rightarrow> Some (\<lambda>fails d. delete_friends fails d a b) | _ \<Rightarrow> None)"

text \<open>The stack in the order of the \<^verbatim>\<open>app.get/post/put/delete\<close> calls of server.js.\<close>

definition app_stack :: "layer list" where
  "app_stack =
     [layer_get_check, layer_post_first, layer_delete_request, layer_get_requests_first,
      layer_put_first, layer_post_second, layer_get_requests_second, layer_put_second,
      layer_get_friends, layer_delete_friends]"

text \<open>Express runs the first layer that matches; no handler here calls \<^verbatim>\<open>next\<close>, so a later
  layer for the same method and path is never reached. A request that no layer matches gets
  the final 404 handler.\<close>

fun first_match :: "layer list \<Rightarrow> request \<Rightarrow> handler option" where
  "first_match [] rq = None"
| "first_match (l # ls) rq = (case l rq of Some h \<Rightarrow> Some h | None \<Rightarrow> first_match ls rq)"

definition app :: "faults \<Rightarrow> db \<Rightarrow> request \<Rightarrow> response \<times> db" where
  "app fails d rq =
     (case first_match app_stack rq of
        Some h \<Rightarrow> h fails d
      | None \<Rightarrow> (Response 404 (Message ''Route not found''), d))"

subsection \<open>The operations of the relationship manager\<close>

text \<open>The operations of the specification are the routes it maps them to, served by the
  running application, in a run without store failures unless said otherwise.
  \<open>sendRequest\<close> names the two users by their ObjectIds, which the client writes in
  lower case; \<open>sendRequest_as\<close> and \<open>removeFriendship\<close> take the texts as the client
  writes them.\<close>

definition queryStatus :: "db \<Rightarrow> oid \<Rightarrow> oid \<Rightarrow> response \<times> db" where
  "queryStatus d a b = app no_fault d (GET_check a b)"

definition sendRequest_as :: "db \<Rightarrow> idtext \<Rightarrow> idtext \<Rightarrow> response \<times> db" where
  "sendRequest_as d fromUser_text toUser_text =
     app no_fault d (POST_friend_request (Some fromUser_text) (Some toUser_text))"

definition sendRequest :: "db \<Rightarrow> oid \<Rightarrow> oid \<Rightarrow> response \<times> db" where
  "sendRequest d a b = sendRequest_as d (toString a) (toString b)"

definition cancelRequest :: "db \<Rightarrow> oid \<Rightarrow> response \<times> db" where
  "cancelRequest d rid = app no_fault d (DELETE_friend_request rid)"

definition resolveRequest :: "db \<Rightarrow> oid \<Rightarrow> oid \<Rightarrow> oid \<Rightarrow> string \<Rightarrow> response \<times> db" where
  "resolveRequest d rid a b st = app no_fault d (PUT_friend_request rid (Some a) (Some b) st)"

definition removeFriendship :: "db \<Rightarrow> idtext \<Rightarrow> idtext \<Rightarrow> response \<times> db" where
  "removeFriendship d userId friendId = app no_fault d (DELETE_friends userId friendId)"

subsection \<open>Concrete stores used in the examples\<close>

definition new_user :: "string \<Rightarrow> string \<Rightarrow> user" where
  "new_user n e =
     \<lparr>name = n, email = e, password = ''secret'', profileImage = None,
      friends = [], incomingRequests = [], outgoingRequests = []\<rparr>"

definition alice :: user where
  "alice = new_user ''alice'' ''alice@example.org''"

definition bob :: user where
  "bob = new_user ''bob'' ''bob@example.org''"

text \<open>Two users just signed up, no requests.\<close>

definition db_fresh :: db where
  "db_fresh = \<lparr>users = [1 \<mapsto> alice, 2 \<mapsto> bob], friendRequests = []\<rparr>"

text \<open>After alice (1) has sent a request to bob (2) through the application: the request is
  document 1.\<close>

definition db_sent :: db where
  "db_sent = snd (sendRequest db_fresh 1 2)"

text \<open>After bob has then sent a request to alice (document 2) and alice has accepted it,
  all through the application.\<close>

definition db_crossed :: db where
  "db_crossed = snd (resolveRequest (snd (sendRequest db_sent 2 1)) 2 2 1 ''accepted'')"

text \<open>A store in which bob (2) has a pending request to alice (1), recorded both in the
  embedded arrays and as a standalone document.\<close>

definition db_reverse :: db where
  "db_reverse =
     \<lparr>users = [1 \<mapsto> alice\<lparr>incomingRequests := [2]\<rparr>, 2 \<mapsto> bob\<lparr>outgoingRequests := [1]\<rparr>],
      friendRequests = [(1, \<lparr>fromUser = 2, toUser = 1, status = ''pending''\<rparr>)]\<rparr>"

text \<open>A store with one request in each lifecycle state between users 3 and 5.\<close>

definition db_requests :: db where
  "db_requests =
     \<lparr>users = [3 \<mapsto> new_user ''carol'' ''carol@example.org'',
               5 \<mapsto> new_user ''dave'' ''dave@example.org''],
      friendRequests =
        [(7, \<lparr>fromUser = 3, toUser = 5, status = ''rejected''\<rparr>),
         (8, \<lparr>fromUser = 3, toUser = 5, status = ''pending''\<rparr>)]\<rparr>"

text \<open>A store in which users 3 and 5 are friends, and user 4 is a friend of none.\<close>

definition db_friends :: db where
  "db_friends =
     \<lparr>users = [3 \<mapsto> (new_user ''carol'' ''carol@example.org'')\<lparr>friends := [5]\<rparr>,
               4 \<mapsto> new_user ''erin'' ''erin@example.org'',
               5 \<mapsto> (new_user ''dave'' ''dave@example.org'')\<lparr>friends := [3]\<rparr>],
      friendRequests = []\<rparr>"

text \<open>A store in which user 3 lists itself as a friend.\<close>

definition db_self_listed :: db where
  "db_self_listed =
     \<lparr>users = [3 \<mapsto> (new_user ''carol'' ''carol@example.org'')\<lparr>friends := [3]\<rparr>],
      friendRequests = []\<rparr>"

text \<open>The text of an ObjectId with its first letter in upper case.\<close>

definition upper_text :: "oid \<Rightarrow> idtext" where
  "upper_text i = IdText i 1"

text \<open>The fault pattern in which exactly the store call numbered \<open>n\<close> rejects.\<close>

definition fails_at :: "nat \<Rightarrow> faults" where
  "fails_at n = (\<lambda>k. k = n)"

text \<open>A store call rejects although another write of the same invocation lands: the two
  \<^verbatim>\<open>findByIdAndUpdate\<close> of the PUT handler come after \<^verbatim>\<open>request.save()\<close>, and the two
  saves of the friend removal run side by side, where the second is also rejected by the
  version check when both change the same document. Every other handler served by the
  application writes at most once, as its last store call.\<close>

definition late_fault :: "faults \<Rightarrow> db \<Rightarrow> request \<Rightarrow> bool" where
  "late_fault fails d rq =
     (case rq of
        PUT_friend_request i f t st \<Rightarrow> fails 2 \<or> fails 3
      | DELETE_friends a b \<Rightarrow> fails 2 \<or> fails 3 \<or> version_conflict d a b
      | _ \<Rightarrow> False)"

section \<open>Routing lemmas\<close>

lemma app_GET_check: "app fails d (GET_check a b) = get_check fails d a b"
  by (simp add: app_def app_stack_def layer_get_check_def)

lemma app_POST_friend_request:
  "app fails d (POST_friend_request f t) = post_friend_request fails d f t"
  by (simp add: app_def app_stack_def layer_get_check_def layer_post_first_def)

lemma app_DELETE_friend_request:
  "app fails d (DELETE_friend_request i) = delete_friend_request fails d i"
  by (simp add: app_def app_stack_def layer_get_check_def layer_post_first_def
      layer_delete_request_def)

lemma app_GET_friend_requests:
  "app fails d (GET_friend_requests i) = get_friend_requests fails d i"
  by (simp add: app_def app_stack_def layer_get_check_def layer_post_first_def
      layer_delete_request_def layer_get_requests_first_def)

lemma app_PUT_friend_request:
  "app fails d (PUT_friend_request i f t st) = put_friend_request fails d i st"
  by (simp add: app_def app_stack_def layer_get_check_def layer_post_first_def
      layer_delete_request_def layer_get_requests_first_def layer_put_first_def)

lemma app_GET_friends: "app fails d (GET_friends i) = get_friends fails d i"
  by (simp add: app_def app_stack_def layer_get_check_def layer_post_first_def
      layer_delete_request_def layer_get_requests_first_def layer_put_first_def
      layer_post_second_def layer_get_requests_second_def layer_put_second_def
      layer_get_friends_def)

lemma app_DELETE_friends: "app fails d (DELETE_friends a b) = delete_friends fails d a b"
  by (simp add: app_def app_stack_def layer_get_check_def layer_post_first_def
      layer_delete_request_def layer_get_requests_first_def layer_put_first_def
      layer_post_second_def layer_get_requests_second_def layer_put_second_def
      layer_get_friends_def layer_delete_friends_def)

lemmas app_routes =
  app_GET_check app_POST_friend_request app_DELETE_friend_request app_GET_friend_requests
  app_PUT_friend_request app_GET_friends app_DELETE_friends

section \<open>Facts about the store operations\<close>

lemma fold_max_ge: "m \<le> fold max xs (m::nat)"
proof (induction xs arbitrary: m)
  case Nil
  then show ?case by simp
next
  case (Cons a xs)
  have "m \<le> max a m" by simp
  also have "\<dots> \<le> fold max xs (max a m)" by (rule Cons.IH)
  finally show ?case by simp
qed

lemma fold_max_mem: "x \<in> set xs \<Longrightarrow> x \<le> fold max xs (m::nat)"
proof (induction xs arbitrary: m)
  case Nil
  then show ?case by simp
next
  case (Cons y ys)
  show ?case
  proof (cases "x = y")
    case True
    have "max y m \<le> fold max ys (max y m)" by (rule fold_max_ge)
    with True show ?thesis by simp
  next
    case False
    with Cons show ?thesis by simp
  qed
qed

lemma fresh_id_fresh: "fresh_id rs \<notin> fst ` set rs"
proof
  assume "fresh_id rs \<in> fst ` set rs"
  then have "fresh_id rs \<in> set (map fst rs)" by simp
  then have "fresh_id rs \<le> fold max (map fst rs) 0" by (rule fold_max_mem)
  then show False by (simp add: fresh_id_def)
qed

lemma map_of_delete_request:
  "map_of (delete_request rid rs) j = (if j = rid then None else map_of rs j)"
  by (induction rs) (auto simp: delete_request_def)

lemma filter_neq_id: "x \<notin> set xs \<Longrightarrow> filter (\<lambda>i. i \<noteq> x) xs = xs"
  by (induction xs) auto

lemma map_of_set_status:
  "map_of (set_status rid st rs) j =
     (if j = rid then map_option (\<lambda>r. r\<lparr>status := st\<rparr>) (map_of rs j) else map_of rs j)"
  by (induction rs) (auto simp: set_status_def)

lemma find_pending_append:
  "find_pending f t (rs @ [(i, r)]) =
     (case find_pending f t rs of
        Some x \<Rightarrow> Some x
      | None \<Rightarrow>
          if fromUser r = f \<and> toUser r = t \<and> status r = ''pending'' then Some (i, r) else None)"
  by (induction rs) (auto simp: find_pending_def)

section \<open>The example stores, computed\<close>

lemmas example_defs =
  db_fresh_def db_reverse_def db_requests_def db_friends_def db_self_listed_def
  alice_def bob_def new_user_def upper_text_def

lemmas operation_defs =
  queryStatus_def sendRequest_def sendRequest_as_def cancelRequest_def resolveRequest_def
  removeFriendship_def

lemmas served_handler_defs =
  get_check_def post_friend_request_def delete_friend_request_def put_friend_request_def
  delete_friends_def update_user_def addToSet_def set_status_def delete_request_def
  find_pending_def fresh_id_def status_enum_def no_fault_def fails_at_def toString_def
  version_conflict_def

lemma db_sent_eq:
  "db_sent = db_fresh\<lparr>friendRequests := [(1, \<lparr>fromUser = 1, toUser = 2, status = ''pending''\<rparr>)]\<rparr>"
  by (simp add: db_sent_def operation_defs app_routes served_handler_defs example_defs)

lemma db_crossed_eq:
  "db_crossed =
     \<lparr>users = [2 \<mapsto> bob\<lparr>friends := [1]\<rparr>, 1 \<mapsto> alice\<lparr>friends := [2]\<rparr>],
      friendRequests =
        [(1, \<lparr>fromUser = 1, toUser = 2, status = ''pending''\<rparr>),
         (2, \<lparr>fromUser = 2, toUser = 1, status = ''accepted''\<rparr>)]\<rparr>"
proof -
  have "snd (sendRequest db_sent 2 1) =
      db_fresh\<lparr>friendRequests :=
        [(1, \<lparr>fromUser = 1, toUser = 2, status = ''pending''\<rparr>),
         (2, \<lparr>fromUser = 2, toUser = 1, status = ''pending''\<rparr>)]\<rparr>"
    by (simp add: db_sent_eq) (simp add: operation_defs app_routes served_handler_defs example_defs)
  then show ?thesis
    by (simp add: db_crossed_def) (simp add: operation_defs app_routes served_handler_defs example_defs)
qed

section \<open>The handlers registered second\<close>

text \<open>The second registrations of POST and PUT match the same requests as the first ones,
  so the application never runs them (\<open>app_POST_friend_request\<close>,
  \<open>app_PUT_friend_request\<close>).\<close>

lemma second_layers_match:
  "layer_post_second (POST_friend_request f t) =
     Some (\<lambda>fails d. post_friend_request_second fails d f t)
   \<and> layer_put_second (PUT_friend_request i a b st) =
     Some (\<lambda>fails d. put_friend_request_second fails d a b st)"
  by (simp add: layer_post_second_def layer_put_second_def)

text \<open>Run on its own, the second POST handler records the request in the embedded arrays,
  and the status check then reports it as pending.\<close>

lemma second_post_records_request:
  assumes "users d (cast_id ta) = Some ua" and "users d (cast_id tb) = Some ub"
    and "cast_id ta \<noteq> cast_id tb"
    and "cast_id tb \<notin> set (friends ua)" and "cast_id tb \<notin> set (outgoingRequests ua)"
    and "cast_id ta \<notin> set (incomingRequests ub)"
  shows "fst (post_friend_request_second no_fault d (Some ta) (Some tb)) =
           Response 201 (Message ''Friend request sent successfully'')
    \<and> fst (get_check no_fault (snd (post_friend_request_second no_fault d (Some ta) (Some tb)))
             (cast_id ta) (cast_id tb)) =
           Response 200 (Status ''pending'')
    \<and> map_option outgoingRequests
         (users (snd (post_friend_request_second no_fault d (Some ta) (Some tb))) (cast_id ta)) =
           Some (outgoingRequests ua @ [cast_id tb])
    \<and> map_option incomingRequests
         (users (snd (post_friend_request_second no_fault d (Some ta) (Some tb))) (cast_id tb)) =
           Some (incomingRequests ub @ [cast_id ta])"
  using assms
  by (simp add: post_friend_request_second_def get_check_def no_fault_def lookup_body_def
      update_user_def)

text \<open>Run on its own, the second PUT handler removes the array entries on accept, makes the
  two users friends, and answers a repeated call with 404.\<close>

lemma second_put_accept_then_not_found:
  assumes "users d a = Some ua" and "users d b = Some ub" and "a \<noteq> b"
    and "a \<in> set (incomingRequests ub)" and "b \<in> set (outgoingRequests ua)"
  shows "code (fst (put_friend_request_second no_fault d (Some a) (Some b) ''accepted'')) = 200
    \<and> fst (get_check no_fault
             (snd (put_friend_request_second no_fault d (Some a) (Some b) ''accepted'')) a b) =
           Response 200 (Status ''friends'')
    \<and> fst (put_friend_request_second no_fault
             (snd (put_friend_request_second no_fault d (Some a) (Some b) ''accepted''))
             (Some a) (Some b) ''accepted'') =
           Response 404 (Message ''Friend request not found'')"
  using assms
  by (simp add: put_friend_request_second_def resolve_saves_def get_check_def no_fault_def
      update_user_def)

text \<open>When one user is both sender and receiver, each of the two document copies pushes
  the friend, and the stored list holds it twice.\<close>

lemma second_put_self_request_doubles_friend:
  "map_option friends
     (users (snd (put_friend_request_second no_fault
        \<lparr>users = [3 \<mapsto> (new_user ''carol'' ''carol@example.org'')
                   \<lparr>incomingRequests := [3], outgoingRequests := [3]\<rparr>],
         friendRequests = []\<rparr> (Some 3) (Some 3) ''accepted'')) 3) = Some [3, 3]"
  by (simp add: put_friend_request_second_def resolve_saves_def no_fault_def update_user_def
      new_user_def)

section \<open>Identifier texts\<close>

lemma toString_inject: "toString a = toString b \<longleftrightarrow> a = b"
  by (simp add: toString_def)

lemma cast_id_toString: "cast_id (toString a) = a"
  by (simp add: toString_def)

lemma filter_toString: "filter (\<lambda>i. toString i \<noteq> toString b) xs = filter (\<lambda>i. i \<noteq> b) xs"
  by (simp add: toString_inject)

lemma filter_other_spelling:
  "t \<noteq> toString (cast_id t) \<Longrightarrow> filter (\<lambda>i. toString i \<noteq> t) xs = xs"
  by (induction xs) (auto simp: cast_id_toString)

text \<open>One user named in two spellings passes the self guard of the served POST handler,
  and a request from the user to itself is stored.\<close>

lemma self_request_in_two_spellings:
  "sendRequest_as db_fresh (toString 1) (upper_text 1) =
     (Response 201 (Sent ''Friend request sent successfully'' 1),
      db_fresh\<lparr>friendRequests := [(1, \<lparr>fromUser = 1, toUser = 1, status = ''pending''\<rparr>)]\<rparr>)"
  by (simp add: operation_defs app_routes served_handler_defs example_defs)

text \<open>A user that lists itself and is removed from its own friends: both saves change the
  same document, the answer is 500 and the entry is gone.\<close>

lemma self_removal_version_conflict:
  "fst (removeFriendship db_self_listed (toString 3) (toString 3)) =
     Response 500 (Message ''Error removing friend'')
   \<and> map_option friends (users (snd (removeFriendship db_self_listed (toString 3) (toString 3))) 3) =
     Some []"
  by (simp add: operation_defs app_routes served_handler_defs example_defs)

section \<open>Sending a request writes one request document and nothing else\<close>

text \<open>
  Claim C10. Whenever the application answers \<^verbatim>\<open>POST /api/friend-request\<close> with 201, for
  any two identifier texts and under any pattern of store failures, the \<^verbatim>\<open>User\<close>
  collection is exactly what it was, so neither user's friends, incomingRequests or
  outgoingRequests changed, and the \<^verbatim>\<open>FriendRequest\<close> collection has grown by exactly
  one document, from the user the first text casts to, to the user the second text casts
  to, with status pending, under an identifier no earlier document carries; the response
  reports that identifier.
\<close>

theorem C10_send_creates_one_pending_record:
  assumes "code (fst (app fails d (POST_friend_request (Some ta) (Some tb)))) = 201"
  shows "users (snd (app fails d (POST_friend_request (Some ta) (Some tb)))) = users d
     \<and> friendRequests (snd (app fails d (POST_friend_request (Some ta) (Some tb)))) =
         friendRequests d @
           [(fresh_id (friendRequests d),
             \<lparr>fromUser = cast_id ta, toUser = cast_id tb, status = ''pending''\<rparr>)]
     \<and> fresh_id (friendRequests d) \<notin> fst ` set (friendRequests d)
     \<and> payload (fst (app fails d (POST_friend_request (Some ta) (Some tb)))) =
         Sent ''Friend request sent successfully'' (fresh_id (friendRequests d))"
  using assms
  by (auto simp: app_POST_friend_request post_friend_request_def fresh_id_fresh
      split: if_splits option.splits)

theorem C10_send_creates_one_pending_record_witness:
  "code (fst (app no_fault db_fresh (POST_friend_request (Some (toString 1)) (Some (toString 2))))) = 201
   \<and> users (snd (app no_fault db_fresh (POST_friend_request (Some (toString 1)) (Some (toString 2))))) =
       users db_fresh
   \<and> friendRequests
       (snd (app no_fault db_fresh (POST_friend_request (Some (toString 1)) (Some (toString 2))))) =
       [(1, \<lparr>fromUser = 1, toUser = 2, status = ''pending''\<rparr>)]"
proof -
  have ok: "code (fst (app no_fault db_fresh
      (POST_friend_request (Some (toString 1)) (Some (toString 2))))) = 201"
    by (simp add: app_POST_friend_request post_friend_request_def no_fault_def db_fresh_def
        alice_def bob_def new_user_def find_pending_def toString_def)
  have empty: "friendRequests db_fresh = []"
    by (simp add: db_fresh_def)
  from C10_send_creates_one_pending_record [OF ok] ok empty show ?thesis
    by (simp add: fresh_id_def cast_id_toString)
qed

section \<open>Cancelling a request\<close>

text \<open>
  Claim C6. \<open>cancelRequest\<close> (\<^verbatim>\<open>DELETE /api/friend-request/:requestId\<close>) answers 404
  "Friend request not found" when no request document has the identifier, and 400
  "Only pending requests can be cancelled" when the document exists with a status other
  than pending; in both cases the store is unchanged. When the document is pending it
  answers 200, the document is gone afterwards, every other request document is still
  there, and the users are untouched.
\<close>

theorem C6_cancelRequest:
  "(map_of (friendRequests d) rid = None \<longrightarrow>
      cancelRequest d rid = (Response 404 (Message ''Friend request not found''), d))
   \<and> (\<forall>r. map_of (friendRequests d) rid = Some r \<and> status r \<noteq> ''pending'' \<longrightarrow>
      cancelRequest d rid = (Response 400 (Message ''Only pending requests can be cancelled''), d))
   \<and> (\<forall>r. map_of (friendRequests d) rid = Some r \<and> status r = ''pending'' \<longrightarrow>
      fst (cancelRequest d rid) = Response 200 (Message ''Friend request cancelled'')
      \<and> map_of (friendRequests (snd (cancelRequest d rid))) rid = None
      \<and> (\<forall>j. j \<noteq> rid \<longrightarrow>
            map_of (friendRequests (snd (cancelRequest d rid))) j = map_of (friendRequests d) j)
      \<and> users (snd (cancelRequest d rid)) = users d)"
  by (simp add: cancelRequest_def app_DELETE_friend_request delete_friend_request_def no_fault_def
      map_of_delete_request)

theorem C6_cancelRequest_witness:
  "cancelRequest db_requests 9 = (Response 404 (Message ''Friend request not found''), db_requests)
   \<and> cancelRequest db_requests 7 =
       (Response 400 (Message ''Only pending requests can be cancelled''), db_requests)
   \<and> fst (cancelRequest db_requests 8) = Response 200 (Message ''Friend request cancelled'')
   \<and> map_of (friendRequests (snd (cancelRequest db_requests 8))) 8 = None
   \<and> map_of (friendRequests (snd (cancelRequest db_requests 8))) 7 =
       Some \<lparr>fromUser = 3, toUser = 5, status = ''rejected''\<rparr>"
proof -
  have n: "map_of (friendRequests db_requests) 9 = None"
    by (simp add: db_requests_def)
  have r: "map_of (friendRequests db_requests) 7 =
      Some \<lparr>fromUser = 3, toUser = 5, status = ''rejected''\<rparr>"
    by (simp add: db_requests_def)
  have p: "map_of (friendRequests db_requests) 8 =
      Some \<lparr>fromUser = 3, toUser = 5, status = ''pending''\<rparr>"
    by (simp add: db_requests_def)
  from C6_cancelRequest [of db_requests 9] n C6_cancelRequest [of db_requests 7] r
    C6_cancelRequest [of db_requests 8] p
  show ?thesis by simp
qed

section \<open>Removing a friendship\<close>

text \<open>For two distinct existing users, named by any texts, the friend removal answers 200.
  Afterwards the first user's friends are the old ones whose lower-case text is not the
  second text, the second user's friends the old ones whose lower-case text is not the
  first text; nothing else of the two documents, no other user and no request document
  has changed. So a user named by its lower-case text is removed from the other's list,
  and a user named in another spelling is not. When neither lists the other, the whole
  store is exactly what it was.\<close>

lemma removeFriendship_distinct_users:
  assumes a: "users d (cast_id ta) = Some ua" and b: "users d (cast_id tb) = Some ub"
    and distinct: "cast_id ta \<noteq> cast_id tb"
  shows "fst (removeFriendship d ta tb) = Response 200 (Message ''Friend removed successfully'')
    \<and> users (snd (removeFriendship d ta tb)) (cast_id ta) =
        Some (ua\<lparr>friends := filter (\<lambda>i. toString i \<noteq> tb) (friends ua)\<rparr>)
    \<and> users (snd (removeFriendship d ta tb)) (cast_id tb) =
        Some (ub\<lparr>friends := filter (\<lambda>i. toString i \<noteq> ta) (friends ub)\<rparr>)
    \<and> (\<forall>c. c \<noteq> cast_id ta \<and> c \<noteq> cast_id tb \<longrightarrow>
          users (snd (removeFriendship d ta tb)) c = users d c)
    \<and> friendRequests (snd (removeFriendship d ta tb)) = friendRequests d
    \<and> (tb = toString (cast_id tb) \<longrightarrow>
          filter (\<lambda>i. toString i \<noteq> tb) (friends ua) = filter (\<lambda>i. i \<noteq> cast_id tb) (friends ua))
    \<and> (ta = toString (cast_id ta) \<longrightarrow>
          filter (\<lambda>i. toString i \<noteq> ta) (friends ub) = filter (\<lambda>i. i \<noteq> cast_id ta) (friends ub))
    \<and> (tb \<noteq> toString (cast_id tb) \<longrightarrow> filter (\<lambda>i. toString i \<noteq> tb) (friends ua) = friends ua)
    \<and> (ta \<noteq> toString (cast_id ta) \<longrightarrow> filter (\<lambda>i. toString i \<noteq> ta) (friends ub) = friends ub)
    \<and> (cast_id tb \<notin> set (friends ua) \<and> cast_id ta \<notin> set (friends ub) \<longrightarrow>
          snd (removeFriendship d ta tb) = d)"
proof -
  have no_conflict: "\<not> version_conflict d ta tb"
    using distinct by (simp add: version_conflict_def)
  have run: "removeFriendship d ta tb =
      (Response 200 (Message ''Friend removed successfully''),
       update_user
         (update_user d (cast_id ta)
            (\<lambda>u. u\<lparr>friends := filter (\<lambda>i. toString i \<noteq> tb) (friends ua)\<rparr>))
         (cast_id tb) (\<lambda>u. u\<lparr>friends := filter (\<lambda>i. toString i \<noteq> ta) (friends ub)\<rparr>))"
    using a b no_conflict
    by (simp add: removeFriendship_def app_DELETE_friends delete_friends_def no_fault_def)
  have canonical_b: "filter (\<lambda>i. toString i \<noteq> tb) (friends ua) =
      filter (\<lambda>i. i \<noteq> cast_id tb) (friends ua)" if "tb = toString (cast_id tb)"
    using filter_toString [of "cast_id tb" "friends ua"] that by simp
  have canonical_a: "filter (\<lambda>i. toString i \<noteq> ta) (friends ub) =
      filter (\<lambda>i. i \<noteq> cast_id ta) (friends ub)" if "ta = toString (cast_id ta)"
    using filter_toString [of "cast_id ta" "friends ub"] that by simp
  have untouched_a: "filter (\<lambda>i. toString i \<noteq> tb) (friends ua) = friends ua"
    if "cast_id tb \<notin> set (friends ua)"
  proof (cases "tb = toString (cast_id tb)")
    case True
    with canonical_b that show ?thesis by (simp add: filter_neq_id)
  next
    case False
    then show ?thesis by (rule filter_other_spelling)
  qed
  have untouched_b: "filter (\<lambda>i. toString i \<noteq> ta) (friends ub) = friends ub"
    if "cast_id ta \<notin> set (friends ub)"
  proof (cases "ta = toString (cast_id ta)")
    case True
    with canonical_a that show ?thesis by (simp add: filter_neq_id)
  next
    case False
    then show ?thesis by (rule filter_other_spelling)
  qed
  have noop: "snd (removeFriendship d ta tb) = d"
    if "cast_id tb \<notin> set (friends ua)" and "cast_id ta \<notin> set (friends ub)"
    using a b distinct untouched_a [OF that(1)] untouched_b [OF that(2)]
    by (simp add: run update_user_def map_upd_triv)
  from a b distinct show ?thesis
    using canonical_a canonical_b noop
    by (auto simp: run update_user_def filter_other_spelling)
qed

text \<open>In the store where users 3 and 5 are friends and user 4 is nobody's friend: named in
  lower case, 3 and 5 lose each other, and removing 4 from 3 changes nothing.\<close>

lemma removeFriendship_examples:
  "fst (removeFriendship db_friends (toString 3) (toString 5)) =
       Response 200 (Message ''Friend removed successfully'')
   \<and> map_option friends (users (snd (removeFriendship db_friends (toString 3) (toString 5))) 3) =
       Some []
   \<and> map_option friends (users (snd (removeFriendship db_friends (toString 3) (toString 5))) 5) =
       Some []
   \<and> fst (removeFriendship db_friends (toString 3) (toString 4)) =
       Response 200 (Message ''Friend removed successfully'')
   \<and> snd (removeFriendship db_friends (toString 3) (toString 4)) = db_friends"
proof -
  have u3: "users db_friends (cast_id (toString 3)) =
      Some ((new_user ''carol'' ''carol@example.org'')\<lparr>friends := [5]\<rparr>)"
    by (simp add: db_friends_def toString_def)
  have u4: "users db_friends (cast_id (toString 4)) = Some (new_user ''erin'' ''erin@example.org'')"
    by (simp add: db_friends_def toString_def)
  have u5: "users db_friends (cast_id (toString 5)) =
      Some ((new_user ''dave'' ''dave@example.org'')\<lparr>friends := [3]\<rparr>)"
    by (simp add: db_friends_def toString_def)
  have d35: "cast_id (toString 3) \<noteq> cast_id (toString 5)"
    by (simp add: toString_def)
  have d34: "cast_id (toString 3) \<noteq> cast_id (toString 4)"
    by (simp add: toString_def)
  from removeFriendship_distinct_users [OF u3 u5 d35] removeFriendship_distinct_users [OF u3 u4 d34]
  show ?thesis by (simp add: new_user_def toString_def)
qed

text \<open>
  Claim C7, evaluated. Users 3 and 5 exist and each lists the other as a friend. When the
  request names the two by texts with a letter in upper case, both users are found, the
  answer is 200 "Friend removed successfully", and each still lists the other: the filters
  of lines 520 and 521 compare \<^verbatim>\<open>id.toString()\<close>, which is in lower case, with the text of
  the URL parameter, while \<^verbatim>\<open>findById\<close> casts the same text. The handler's own comment
  reads "Remove from both users' friends arrays"; named in lower case the two do lose each
  other (\<open>removeFriendship_examples\<close>), and the second PUT handler filters against
  \<^verbatim>\<open>_id.toString()\<close> of the document it found.
\<close>

theorem C7_upper_case_removal_removes_nothing:
  "fst (removeFriendship db_friends (upper_text 3) (upper_text 5)) =
       Response 200 (Message ''Friend removed successfully'')
   \<and> map_option friends (users db_friends 3) = Some [5]
   \<and> map_option friends (users db_friends 5) = Some [3]
   \<and> map_option friends
       (users (snd (removeFriendship db_friends (upper_text 3) (upper_text 5))) 3) = Some [5]
   \<and> map_option friends
       (users (snd (removeFriendship db_friends (upper_text 3) (upper_text 5))) 5) = Some [3]"
  by (simp add: operation_defs app_routes served_handler_defs example_defs)

section \<open>The status check\<close>




section \<open>Sending a request and then asking for the status\<close>

text \<open>
  Claim C1, evaluated. Alice (1) and bob (2) exist, are distinct and have no relationship.
  The application answers alice's request to bob with 201; asked for the status of the pair
  right after, it answers none, bob is not in alice's outgoingRequests and alice is not in
  bob's incomingRequests. The handler that serves the POST writes a request document only,
  while the status check reads the embedded arrays only; the handler that fills the arrays
  is the second registration of the same route (\<open>second_post_records_request\<close>), which
  is never reached.
\<close>

theorem C1_sent_request_reads_none:
  "fst (sendRequest db_fresh 1 2) = Response 201 (Sent ''Friend request sent successfully'' 1)
   \<and> fst (queryStatus (snd (sendRequest db_fresh 1 2)) 1 2) = Response 200 (Status ''none'')
   \<and> map_option outgoingRequests (users (snd (sendRequest db_fresh 1 2)) 1) = Some []
   \<and> map_option incomingRequests (users (snd (sendRequest db_fresh 1 2)) 2) = Some []"
  by (simp add: operation_defs app_routes served_handler_defs example_defs)

section \<open>Accepting a request twice\<close>

text \<open>
  Claim C2, evaluated. In the store left by alice's request to bob, request 1 is pending.
  Accepting it answers 200 and the status of the pair becomes friends; accepting it a
  second time answers 200 again, not 404, and the request document is still there with
  status accepted. The handler that serves the PUT finds the request by identifier and
  never looks at its status; the second registration of the route answers the repeated
  call with 404 (\<open>second_put_accept_then_not_found\<close>), and the cancel handler refuses a
  request that is not pending.
\<close>

theorem C2_second_accept_succeeds:
  "map_of (friendRequests db_sent) 1 = Some \<lparr>fromUser = 1, toUser = 2, status = ''pending''\<rparr>
   \<and> fst (resolveRequest db_sent 1 1 2 ''accepted'') =
       Response 200 (Message ''Friend request accepted'')
   \<and> fst (queryStatus (snd (resolveRequest db_sent 1 1 2 ''accepted'')) 1 2) =
       Response 200 (Status ''friends'')
   \<and> fst (resolveRequest (snd (resolveRequest db_sent 1 1 2 ''accepted'')) 1 1 2 ''accepted'') =
       Response 200 (Message ''Friend request accepted'')
   \<and> map_of (friendRequests (snd (resolveRequest db_sent 1 1 2 ''accepted''))) 1 =
       Some \<lparr>fromUser = 1, toUser = 2, status = ''accepted''\<rparr>"
  by (simp add: db_sent_eq) (simp add: operation_defs app_routes served_handler_defs example_defs)

section \<open>Crossing requests\<close>

text \<open>
  Claim C4, as stated, at the store left by alice's request to bob: bob's request to alice
  is answered with 201, and the store then holds two pending requests, one in each
  direction.
\<close>

theorem C4_reverse_request_accepted:
  "find_pending 1 2 (friendRequests db_sent) =
       Some (1, \<lparr>fromUser = 1, toUser = 2, status = ''pending''\<rparr>)
   \<and> fst (sendRequest db_sent 2 1) = Response 201 (Sent ''Friend request sent successfully'' 2)
   \<and> friendRequests (snd (sendRequest db_sent 2 1)) =
       [(1, \<lparr>fromUser = 1, toUser = 2, status = ''pending''\<rparr>),
        (2, \<lparr>fromUser = 2, toUser = 1, status = ''pending''\<rparr>)]"
  by (simp add: db_sent_eq) (simp add: operation_defs app_routes served_handler_defs example_defs)

text \<open>
  Claim C4, amended. While a request from \<open>a\<close> to \<open>b\<close> is pending, a repeated
  \<open>sendRequest\<close> from \<open>a\<close> to \<open>b\<close> never succeeds and leaves the store unchanged; when
  \<open>a\<close> exists, differs from \<open>b\<close> and does not list \<open>b\<close> as a friend, the answer is 400
  "Friend request already sent". A request in the other direction is not refused on
  account of it: when \<open>b\<close> exists, does not list \<open>a\<close> as a friend and has no pending
  request to \<open>a\<close> of its own, \<open>sendRequest\<close> from \<open>b\<close> to \<open>a\<close> answers 201 and appends a
  pending request from \<open>b\<close> to \<open>a\<close>, the one from \<open>a\<close> to \<open>b\<close> staying pending beside it.
\<close>

theorem C4_pending_blocks_same_direction_only:
  assumes p: "find_pending a b (friendRequests d) = Some x"
  shows "code (fst (sendRequest d a b)) \<noteq> 201 \<and> snd (sendRequest d a b) = d
    \<and> (\<forall>ua. users d a = Some ua \<and> a \<noteq> b \<and> b \<notin> set (friends ua) \<longrightarrow>
          fst (sendRequest d a b) = Response 400 (Message ''Friend request already sent''))
    \<and> (\<forall>ub. users d b = Some ub \<and> a \<noteq> b \<and> a \<notin> set (friends ub)
             \<and> find_pending b a (friendRequests d) = None \<longrightarrow>
          fst (sendRequest d b a) =
            Response 201 (Sent ''Friend request sent successfully'' (fresh_id (friendRequests d)))
          \<and> friendRequests (snd (sendRequest d b a)) =
              friendRequests d @
                [(fresh_id (friendRequests d), \<lparr>fromUser = b, toUser = a, status = ''pending''\<rparr>)]
          \<and> find_pending a b (friendRequests (snd (sendRequest d b a))) = Some x
          \<and> find_pending b a (friendRequests (snd (sendRequest d b a))) =
              Some (fresh_id (friendRequests d), \<lparr>fromUser = b, toUser = a, status = ''pending''\<rparr>))"
  using p
  by (auto simp: sendRequest_def sendRequest_as_def app_POST_friend_request
      post_friend_request_def no_fault_def toString_def find_pending_append
      split: option.splits)

theorem C4_pending_blocks_same_direction_only_witness:
  "fst (sendRequest db_sent 1 2) = Response 400 (Message ''Friend request already sent'')
   \<and> snd (sendRequest db_sent 1 2) = db_sent
   \<and> fst (sendRequest db_sent 2 1) = Response 201 (Sent ''Friend request sent successfully'' 2)
   \<and> find_pending 1 2 (friendRequests (snd (sendRequest db_sent 2 1))) =
       Some (1, \<lparr>fromUser = 1, toUser = 2, status = ''pending''\<rparr>)
   \<and> find_pending 2 1 (friendRequests (snd (sendRequest db_sent 2 1))) =
       Some (2, \<lparr>fromUser = 2, toUser = 1, status = ''pending''\<rparr>)"
proof -
  have p: "find_pending 1 2 (friendRequests db_sent) =
      Some (1, \<lparr>fromUser = 1, toUser = 2, status = ''pending''\<rparr>)"
    by (simp add: db_sent_eq find_pending_def)
  have q: "find_pending 2 1 (friendRequests db_sent) = None"
    by (simp add: db_sent_eq find_pending_def)
  have a1: "users db_sent 1 = Some alice"
    by (simp add: db_sent_eq db_fresh_def)
  have a2: "users db_sent 2 = Some bob"
    by (simp add: db_sent_eq db_fresh_def)
  have fr: "fresh_id (friendRequests db_sent) = 2"
    by (simp add: db_sent_eq fresh_id_def)
  from C4_pending_blocks_same_direction_only [OF p] a1 a2 q fr show ?thesis
    by (simp add: alice_def bob_def new_user_def db_sent_eq find_pending_def)
qed

section \<open>The preconditions of sending\<close>




section \<open>Rejecting a request\<close>

text \<open>
  Claim C8, as stated, at a store the application reaches by itself: alice sends bob a
  request (document 1), bob sends alice one (document 2), alice accepts bob's. Request 1
  from alice to bob is still pending; rejecting it answers 200, and the status of the
  pair is friends afterwards, not none.
\<close>

theorem C8_reject_between_friends_reads_friends:
  "find_pending 1 2 (friendRequests db_crossed) =
       Some (1, \<lparr>fromUser = 1, toUser = 2, status = ''pending''\<rparr>)
   \<and> fst (resolveRequest db_crossed 1 1 2 ''rejected'') =
       Response 200 (Message ''Friend request rejected'')
   \<and> fst (queryStatus (snd (resolveRequest db_crossed 1 1 2 ''rejected'')) 1 2) =
       Response 200 (Status ''friends'')"
  by (simp add: db_crossed_eq)
    (simp add: operation_defs app_routes served_handler_defs example_defs)

text \<open>
  Claim C8, amended. For every pending request document from \<open>a\<close> to \<open>b\<close>, rejecting it
  answers 200, marks the document rejected and leaves the whole \<^verbatim>\<open>User\<close> collection as
  it was, so no friends list changes. The status check for the pair answers afterwards
  what it answered before; that is none whenever \<open>a\<close> and \<open>b\<close> exist, \<open>b\<close> is not in
  \<open>a\<close>'s friends list and no embedded entry for the request is listed.
\<close>

theorem C8_reject_leaves_users_alone:
  assumes r: "map_of (friendRequests d) rid = Some r"
    and "fromUser r = a" and "toUser r = b" and "status r = ''pending''"
  shows "fst (resolveRequest d rid a b ''rejected'') =
           Response 200 (Message ''Friend request rejected'')
    \<and> users (snd (resolveRequest d rid a b ''rejected'')) = users d
    \<and> map_of (friendRequests (snd (resolveRequest d rid a b ''rejected''))) rid =
        Some (r\<lparr>status := ''rejected''\<rparr>)
    \<and> fst (queryStatus (snd (resolveRequest d rid a b ''rejected'')) a b) = fst (queryStatus d a b)
    \<and> (\<forall>ua ub. users d a = Some ua \<and> users d b = Some ub \<and> b \<notin> set (friends ua)
          \<and> b \<notin> set (outgoingRequests ua) \<and> a \<notin> set (incomingRequests ub) \<longrightarrow>
        fst (queryStatus (snd (resolveRequest d rid a b ''rejected'')) a b) =
          Response 200 (Status ''none''))"
proof -
  let ?d' = "snd (resolveRequest d rid a b ''rejected'')"
  have run: "resolveRequest d rid a b ''rejected'' =
      (Response 200 (Message ''Friend request rejected''),
       d\<lparr>friendRequests := set_status rid ''rejected'' (friendRequests d)\<rparr>)"
    using r
    by (simp add: resolveRequest_def app_PUT_friend_request put_friend_request_def no_fault_def
        status_enum_def)
  have same_users: "users ?d' = users d"
    by (simp add: run)
  have same_status: "fst (queryStatus ?d' a b) = fst (queryStatus d a b)"
    by (simp add: run queryStatus_def app_GET_check get_check_def no_fault_def
        split: option.splits)
  have none: "fst (queryStatus d a b) = Response 200 (Status ''none'')"
    if "users d a = Some ua" and "users d b = Some ub" and "b \<notin> set (friends ua)"
      and "b \<notin> set (outgoingRequests ua)" and "a \<notin> set (incomingRequests ub)" for ua ub
    using that by (simp add: queryStatus_def app_GET_check get_check_def no_fault_def)
  have marked: "map_of (friendRequests ?d') rid = Some (r\<lparr>status := ''rejected''\<rparr>)"
    using r by (simp add: run map_of_set_status)
  from run same_users marked same_status none show ?thesis
    by auto
qed

theorem C8_reject_leaves_users_alone_witness:
  "fst (resolveRequest db_sent 1 1 2 ''rejected'') =
       Response 200 (Message ''Friend request rejected'')
   \<and> users (snd (resolveRequest db_sent 1 1 2 ''rejected'')) = users db_sent
   \<and> fst (queryStatus (snd (resolveRequest db_sent 1 1 2 ''rejected'')) 1 2) =
       Response 200 (Status ''none'')"
proof -
  have r: "map_of (friendRequests db_sent) 1 =
      Some \<lparr>fromUser = 1, toUser = 2, status = ''pending''\<rparr>"
    by (simp add: db_sent_eq)
  have a1: "users db_sent 1 = Some alice"
    by (simp add: db_sent_eq db_fresh_def)
  have a2: "users db_sent 2 = Some bob"
    by (simp add: db_sent_eq db_fresh_def)
  from C8_reject_leaves_users_alone [OF r, of 1 2] a1 a2 show ?thesis
    by (simp add: alice_def bob_def new_user_def queryStatus_def app_GET_check get_check_def
        no_fault_def)
qed

section \<open>Failed operations\<close>

text \<open>
  Claim C9, as stated, at the store left by alice's request to bob, when the last store
  call of the PUT handler rejects while request 1 is being accepted: the operation fails
  with 500, yet the request is stored as accepted and bob is in alice's friends list while
  alice is not in bob's.
\<close>

theorem C9_failed_accept_leaves_half_friendship:
  "code (fst (app (fails_at 3) db_sent (PUT_friend_request 1 (Some 1) (Some 2) ''accepted''))) = 500
   \<and> map_option friends (users db_sent 1) = Some []
   \<and> map_option friends
       (users (snd (app (fails_at 3) db_sent (PUT_friend_request 1 (Some 1) (Some 2) ''accepted''))) 1) =
       Some [2]
   \<and> map_option friends
       (users (snd (app (fails_at 3) db_sent (PUT_friend_request 1 (Some 1) (Some 2) ''accepted''))) 2) =
       Some []
   \<and> map_option status
       (map_of (friendRequests
          (snd (app (fails_at 3) db_sent (PUT_friend_request 1 (Some 1) (Some 2) ''accepted'')))) 1) =
       Some ''accepted''"
  by (simp add: db_sent_eq) (simp add: operation_defs app_routes served_handler_defs example_defs)

text \<open>
  Claim C9, amended. Whatever store calls reject, an operation that the application answers
  with 400 or 404 leaves the store exactly as it was. So does an operation answered with
  500, unless a store call rejected while another write of the same invocation landed
  (\<open>late_fault\<close>: store calls 2 and 3 of the PUT handler and of the friend removal, the
  latter rejected by the database or by the version check on a user removed from its own
  friends list); in particular every failure in a run without such a rejection leaves the
  store unchanged.
\<close>

theorem C9_failure_without_late_fault_changes_nothing:
  "((code (fst (app fails d rq)) = 400 \<or> code (fst (app fails d rq)) = 404) \<longrightarrow>
      snd (app fails d rq) = d)
   \<and> (code (fst (app fails d rq)) = 500 \<and> \<not> late_fault fails d rq \<longrightarrow>
      snd (app fails d rq) = d)
   \<and> (code (fst (app no_fault d rq)) \<noteq> 200 \<and> code (fst (app no_fault d rq)) \<noteq> 201
      \<and> \<not> late_fault no_fault d rq \<longrightarrow>
      snd (app no_fault d rq) = d)"
proof (cases rq)
  case (GET_check a b)
  then show ?thesis
    by (auto simp: app_routes get_check_def no_fault_def split: option.splits if_splits)
next
  case (POST_friend_request f t)
  then show ?thesis
    by (auto simp: app_routes post_friend_request_def no_fault_def
        split: option.splits if_splits)
next
  case (DELETE_friend_request i)
  then show ?thesis
    by (auto simp: app_routes delete_friend_request_def no_fault_def
        split: option.splits if_splits)
next
  case (GET_friend_requests i)
  then show ?thesis
    by (auto simp: app_routes get_friend_requests_def no_fault_def split: if_splits)
next
  case (PUT_friend_request i f t st)
  then show ?thesis
    by (auto simp: app_routes put_friend_request_def no_fault_def late_fault_def
        split: option.splits if_splits)
next
  case (GET_friends i)
  then show ?thesis
    by (auto simp: app_routes get_friends_def no_fault_def split: option.splits if_splits)
next
  case (DELETE_friends a b)
  then show ?thesis
    by (auto simp: app_routes delete_friends_def no_fault_def late_fault_def
        split: option.splits if_splits)
qed

theorem C9_failure_without_late_fault_changes_nothing_witness:
  "code (fst (app (fails_at 3) db_fresh (DELETE_friend_request 9))) = 404
   \<and> snd (app (fails_at 3) db_fresh (DELETE_friend_request 9)) = db_fresh
   \<and> code (fst (app (fails_at 1) db_sent (PUT_friend_request 1 (Some 1) (Some 2) ''accepted''))) = 500
   \<and> snd (app (fails_at 1) db_sent (PUT_friend_request 1 (Some 1) (Some 2) ''accepted'')) = db_sent
   \<and> code (fst (app no_fault db_fresh
         (POST_friend_request (Some (toString 9)) (Some (toString 1))))) = 500
   \<and> snd (app no_fault db_fresh (POST_friend_request (Some (toString 9)) (Some (toString 1)))) =
       db_fresh"
proof -
  have c1: "code (fst (app (fails_at 3) db_fresh (DELETE_friend_request 9))) = 404"
    by (simp add: app_routes delete_friend_request_def fails_at_def db_fresh_def)
  have c2: "code (fst (app (fails_at 1) db_sent
      (PUT_friend_request 1 (Some 1) (Some 2) ''accepted''))) = 500"
    by (simp add: app_routes put_friend_request_def fails_at_def db_sent_eq status_enum_def)
  have l2: "\<not> late_fault (fails_at 1) db_sent (PUT_friend_request 1 (Some 1) (Some 2) ''accepted'')"
    by (simp add: late_fault_def fails_at_def)
  have c3: "code (fst (app no_fault db_fresh
      (POST_friend_request (Some (toString 9)) (Some (toString 1))))) = 500"
    by (simp add: app_routes post_friend_request_def no_fault_def db_fresh_def toString_def)
  have l3: "\<not> late_fault no_fault db_fresh
      (POST_friend_request (Some (toString 9)) (Some (toString 1)))"
    by (simp add: late_fault_def)
  from C9_failure_without_late_fault_changes_nothing
      [of "fails_at 3" db_fresh "DELETE_friend_request 9"] c1
    C9_failure_without_late_fault_changes_nothing
      [of "fails_at 1" db_sent "PUT_friend_request 1 (Some 1) (Some 2) ''accepted''"] c2 l2
    C9_failure_without_late_fault_changes_nothing
      [of _ db_fresh "POST_friend_request (Some (toString 9)) (Some (toString 1))"] c3 l3
  show ?thesis by simp
qed

end
